theory Spec2Isabelle
  imports Complex_Main "HOL-Library.AList"
begin

section \<open>Python values, exceptions and effects\<close>

text \<open>
  The module \<^verbatim>\<open>app/services/agent.py\<close> is glue over three external collaborators: two
  text-generation agents, the extraction client and the JSON decoder of the standard
  library. Text is modelled as \<^typ>\<open>string\<close>, read as the UTF-8 bytes of the Python
  \<^verbatim>\<open>str\<close>; the string literals of the module are taken byte for byte from the source file.
  Values that come out of decoded JSON or out of the extraction client are dynamically
  typed, so they are modelled by the datatype \<open>pyval\<close>. A float is an exact rational or
  one of the three special values; rounding to a double is not modelled.
\<close>

datatype pyfloat = Finite rat | NaN | PosInf | NegInf

datatype pyval =
    PNone
  | PBool bool
  | PInt int
  | PFloat pyfloat
  | PStr string
  | PList "pyval list"
  | PDict "(string \<times> pyval) list"

text \<open>Python truthiness, as tested by \<^verbatim>\<open>not x\<close> and by \<^verbatim>\<open>a and b\<close>.\<close>

fun truthy :: "pyval \<Rightarrow> bool" where
  "truthy PNone = False"
| "truthy (PBool b) = b"
| "truthy (PInt n) = (n \<noteq> 0)"
| "truthy (PFloat f) = (f \<noteq> Finite 0)"
| "truthy (PStr s) = (s \<noteq> [])"
| "truthy (PList xs) = (xs \<noteq> [])"
| "truthy (PDict kvs) = (kvs \<noteq> [])"

text \<open>
  The exceptions that occur. All of them are subclasses of \<^verbatim>\<open>Exception\<close>, which is what
  both handlers of the module catch. \<open>External\<close> is any exception raised inside a
  collaborator (network failure, bad credentials, rate limit), with its message.
\<close>

datatype exn = AttributeError | KeyError | TypeError | JSONDecodeError | External string

text \<open>
  What is sent to the collaborators. Every prompt of the source is an f-string: a fixed
  template with holes. The model keeps the template's identity and the values put into
  the holes, in the order of their first occurrence, and not the rendered text.
\<close>

datatype prompt =
    InterpretPrompt string
      \<comment> \<open>lines 207-226; hole: \<^verbatim>\<open>query\<close>\<close>
  | ExtractPropertiesPrompt pyval string pyval pyval
      \<comment> \<open>lines 88-98; holes: \<^verbatim>\<open>property_category\<close>, \<^verbatim>\<open>property_type_prompt\<close>, \<^verbatim>\<open>city\<close>, \<^verbatim>\<open>max_price\<close>\<close>
  | AnalysisPrompt pyval pyval pyval pyval
      \<comment> \<open>lines 114-144; holes: \<^verbatim>\<open>properties\<close>, \<^verbatim>\<open>property_category\<close>, \<^verbatim>\<open>property_type\<close>, \<^verbatim>\<open>max_price\<close>\<close>
  | ExtractTrendsPrompt
      \<comment> \<open>lines 154-160; no hole\<close>
  | TrendsPrompt pyval pyval
      \<comment> \<open>lines 168-197; holes: \<^verbatim>\<open>city\<close>, \<^verbatim>\<open>locations\<close>\<close>

text \<open>
  The observable actions, in the order in which they happen: the construction of the
  \<^verbatim>\<open>PropertyFindingAgent\<close> (with the two keys and the model id), the calls of the two
  agents and of the extraction client, and \<^verbatim>\<open>logging.error\<close>. Text written with
  \<^verbatim>\<open>print\<close> is not recorded.
\<close>

datatype event =
    Construct string string string
  | InterpreterRun prompt
  | FirecrawlExtract "string list" prompt
  | AgentRun prompt
  | LogError exn

text \<open>
  The collaborators and the process environment. \<open>getenv\<close> is \<^verbatim>\<open>os.getenv\<close>;
  \<open>construct_agent\<close> is the constructor of \<^verbatim>\<open>PropertyFindingAgent\<close> (\<open>None\<close>: it
  returned); \<open>interpreter_run\<close> and \<open>agent_run\<close> are \<^verbatim>\<open>run\<close> of the two agents followed
  by \<^verbatim>\<open>.content\<close>, which is a text or \<^verbatim>\<open>None\<close>; \<open>firecrawl_extract\<close> is
  \<^verbatim>\<open>FirecrawlApp.extract\<close>, \<open>json_loads\<close> is \<^verbatim>\<open>json.loads\<close> and \<open>str_lower\<close> is the
  method \<^verbatim>\<open>str.lower\<close>, which lowers every cased letter of Unicode. Each service is called
  at most once per request, so a function of the argument covers every behaviour.
\<close>

record deps =
  getenv :: "string \<Rightarrow> string option"
  construct_agent :: "string \<Rightarrow> string \<Rightarrow> string \<Rightarrow> exn option"
  interpreter_run :: "prompt \<Rightarrow> exn + string option"
  agent_run :: "prompt \<Rightarrow> exn + string option"
  firecrawl_extract :: "string list \<Rightarrow> prompt \<Rightarrow> exn + pyval"
  json_loads :: "string \<Rightarrow> exn + pyval"
  str_lower :: "string \<Rightarrow> string"

text \<open>
  A computation yields an exception or a value, together with the events it caused.
\<close>

type_synonym 'a eff = "(exn + 'a) \<times> event list"

definition ret :: "'a \<Rightarrow> 'a eff" where
  "ret x = (Inr x, [])"

definition raise :: "exn \<Rightarrow> 'a eff" where
  "raise e = (Inl e, [])"

definition call :: "event \<Rightarrow> exn + 'a \<Rightarrow> 'a eff" where
  \<comment> \<open>a call of a collaborator: the event, then its outcome\<close>
  "call ev r = (r, [ev])"

definition bind_eff :: "'a eff \<Rightarrow> ('a \<Rightarrow> 'b eff) \<Rightarrow> 'b eff" where
  "bind_eff m f =
     (case m of
        (Inl e, t) \<Rightarrow> (Inl e, t)
      | (Inr x, t) \<Rightarrow> (case f x of (r, t') \<Rightarrow> (r, t @ t')))"

definition try_except :: "'a eff \<Rightarrow> (exn \<Rightarrow> 'a eff) \<Rightarrow> 'a eff" where
  \<comment> \<open>\<^verbatim>\<open>try: m except Exception as e: h e\<close>\<close>
  "try_except m h =
     (case m of
        (Inl e, t) \<Rightarrow> (case h e of (r, t') \<Rightarrow> (r, t @ t'))
      | (Inr x, t) \<Rightarrow> (Inr x, t))"

definition lift :: "exn + 'a \<Rightarrow> 'a eff" where
  \<comment> \<open>a step without events\<close>
  "lift r = (r, [])"

subsection \<open>Dictionary and string operations\<close>

definition py_get :: "pyval \<Rightarrow> string \<Rightarrow> pyval \<Rightarrow> exn + pyval" where
  \<comment> \<open>\<^verbatim>\<open>x.get(key, default)\<close>: only a dict has the method\<close>
  "py_get x k dflt =
     (case x of
        PDict kvs \<Rightarrow> (case map_of kvs k of None \<Rightarrow> Inr dflt | Some v \<Rightarrow> Inr v)
      | _ \<Rightarrow> Inl AttributeError)"

definition py_item :: "pyval \<Rightarrow> string \<Rightarrow> exn + pyval" where
  \<comment> \<open>\<^verbatim>\<open>x[key]\<close> on a dict\<close>
  "py_item x k =
     (case x of
        PDict kvs \<Rightarrow> (case map_of kvs k of None \<Rightarrow> Inl KeyError | Some v \<Rightarrow> Inr v)
      | _ \<Rightarrow> Inl TypeError)"

definition code :: "char \<Rightarrow> nat" where
  "code c = of_char c"

definition lower_char :: "char \<Rightarrow> char" where
  \<comment> \<open>the lower case of an ASCII letter; every other byte is left as it is\<close>
  "lower_char c = (if 65 \<le> code c \<and> code c \<le> 90 then char_of (code c + 32) else c)"

definition py_lower :: "deps \<Rightarrow> pyval \<Rightarrow> exn + string" where
  \<comment> \<open>\<^verbatim>\<open>x.lower()\<close>: only a str has the method\<close>
  "py_lower d x = (case x of PStr s \<Rightarrow> Inr (str_lower d s) | _ \<Rightarrow> Inl AttributeError)"

section \<open>The Query Interpreter\<close>

subsection \<open>The two patterns\<close>

text \<open>
  \<^verbatim>\<open>re.search(r'({.*})', content, re.DOTALL)\<close>: with \<^verbatim>\<open>DOTALL\<close> the dot matches every
  character, the star is greedy and the search takes the leftmost start. So the match
  starts at the first opening brace and ends at the last closing brace of the text, and
  there is a match exactly when a closing brace follows the first opening one.
\<close>

definition brace_group :: "string \<Rightarrow> string option" where
  "brace_group s =
     (let t = dropWhile (\<lambda>c. c \<noteq> CHR 0x7B) s
      in if t = [] \<or> CHR 0x7D \<notin> set (tl t) then None
         else Some (rev (dropWhile (\<lambda>c. c \<noteq> CHR 0x7D) (rev t))))"

text \<open>
  \<^verbatim>\<open>re.search(r'city["\s:]+([^",\s]+)', content, re.IGNORECASE)\<close>. The class \<^verbatim>\<open>\s\<close> of a
  \<^verbatim>\<open>str\<close> pattern is the Unicode white space; \<open>space_len\<close> gives the number of bytes of
  the white-space character at the head of a text, and 0 when there is none.
\<close>

definition space_len :: "string \<Rightarrow> nat" where
  "space_len s =
     (case map code s of
        [] \<Rightarrow> 0
      | a # r \<Rightarrow>
          if (9 \<le> a \<and> a \<le> 13) \<or> (28 \<le> a \<and> a \<le> 32) then 1
          else (case r of
                  [] \<Rightarrow> 0
                | b # r' \<Rightarrow>
                    if a = 0xC2 \<and> (b = 0x85 \<or> b = 0xA0) then 2
                    else (case r' of
                            [] \<Rightarrow> 0
                          | c # _ \<Rightarrow>
                              if a = 0xE1 \<and> b = 0x9A \<and> c = 0x80 then 3
                              else if a = 0xE2 \<and> b = 0x80 \<and>
                                      ((0x80 \<le> c \<and> c \<le> 0x8A) \<or> c = 0xA8 \<or> c = 0xA9 \<or> c = 0xAF)
                                   then 3
                              else if a = 0xE2 \<and> b = 0x81 \<and> c = 0x9F then 3
                              else if a = 0xE3 \<and> b = 0x80 \<and> c = 0x80 then 3
                              else 0)))"

definition sep_len :: "string \<Rightarrow> nat" where
  \<comment> \<open>one character of the class \<^verbatim>\<open>["\s:]\<close> at the head: its length in bytes, or 0\<close>
  "sep_len s =
     (case s of
        [] \<Rightarrow> 0
      | c # _ \<Rightarrow> if c = CHR 0x22 \<or> c = CHR '':'' then 1 else space_len s)"

fun city_group :: "string \<Rightarrow> string" where
  \<comment> \<open>the greedy \<^verbatim>\<open>[^",\s]+\<close>: the longest prefix free of quote, comma and white space\<close>
  "city_group [] = []"
| "city_group (c # r) =
     (if c = CHR 0x22 \<or> c = CHR '','' \<or> space_len (c # r) \<noteq> 0 then []
      else c # city_group r)"

function seps_then_group :: "string \<Rightarrow> string option" where
  \<comment> \<open>the greedy \<^verbatim>\<open>["\s:]+\<close> followed by the group: the longest run of separators is
      tried first, and a shorter one only when the group would be empty after it\<close>
  "seps_then_group s =
     (if sep_len s = 0 then None
      else (case seps_then_group (drop (sep_len s) s) of
              Some g \<Rightarrow> Some g
            | None \<Rightarrow>
                (let g = city_group (drop (sep_len s) s)
                 in if g = [] then None else Some g)))"
  by pat_completeness auto

termination
  by (relation "measure length") (auto simp: sep_len_def split: list.splits)

text \<open>
  Under \<^verbatim>\<open>IGNORECASE\<close> a letter of the pattern matches the characters whose lower case it
  is; the letter \<^verbatim>\<open>i\<close> also matches the dotted capital and the dotless small i
  (U+0130 and U+0131, in UTF-8 the bytes C4 B0 and C4 B1).
\<close>

definition strip_letter :: "char \<Rightarrow> string \<Rightarrow> string option" where
  "strip_letter l s = (case s of [] \<Rightarrow> None | c # r \<Rightarrow> if lower_char c = l then Some r else None)"

definition strip_letter_i :: "string \<Rightarrow> string option" where
  "strip_letter_i s =
     (case s of
        [] \<Rightarrow> None
      | c # r \<Rightarrow>
          if lower_char c = CHR ''i'' then Some r
          else (case r of
                  [] \<Rightarrow> None
                | c' # r' \<Rightarrow>
                    if code c = 0xC4 \<and> (code c' = 0xB0 \<or> code c' = 0xB1) then Some r' else None))"

definition city_here :: "string \<Rightarrow> string option" where
  \<comment> \<open>a match of the whole pattern that starts at the head of the text: its group\<close>
  "city_here s =
     Option.bind (strip_letter CHR ''c'' s) (\<lambda>r1.
     Option.bind (strip_letter_i r1) (\<lambda>r2.
     Option.bind (strip_letter CHR ''t'' r2) (\<lambda>r3.
     Option.bind (strip_letter CHR ''y'' r3) seps_then_group)))"

fun city_search :: "string \<Rightarrow> string option" where
  \<comment> \<open>\<^verbatim>\<open>re.search\<close>: the leftmost start that matches\<close>
  "city_search [] = None"
| "city_search (c # r) =
     (case city_here (c # r) of Some g \<Rightarrow> Some g | None \<Rightarrow> city_search r)"

subsection \<open>\<^verbatim>\<open>interpret_user_query\<close>\<close>

definition default_max_price :: pyval where
  "default_max_price = PFloat (Finite 5)"

definition parse_content :: "deps \<Rightarrow> string option \<Rightarrow> exn + pyval" where
  \<comment> \<open>lines 231-245, the body of the \<^verbatim>\<open>try\<close>. \<^verbatim>\<open>re.search\<close> on a content that is
      \<^verbatim>\<open>None\<close> raises \<^verbatim>\<open>TypeError\<close>.\<close>
  "parse_content d content =
     (case content of
        None \<Rightarrow> Inl TypeError
      | Some s \<Rightarrow>
          (case brace_group s of
             Some g \<Rightarrow> json_loads d g
           | None \<Rightarrow>
               Inr (PDict
                 [(''city'', (case city_search s of None \<Rightarrow> PNone | Some g \<Rightarrow> PStr g)),
                  (''max_price'', default_max_price),
                  (''property_category'', PStr ''Residential''),
                  (''property_type'', PStr ''Flat'')])))"

definition interpret_user_query :: "deps \<Rightarrow> string \<Rightarrow> pyval eff" where
  \<comment> \<open>lines 204-249: the call of the agent is before the \<^verbatim>\<open>try\<close>, the handler returns
      the empty dict\<close>
  "interpret_user_query d query =
     bind_eff (call (InterpreterRun (InterpretPrompt query))
                    (interpreter_run d (InterpretPrompt query)))
       (\<lambda>content. try_except (lift (parse_content d content)) (\<lambda>e. ret (PDict [])))"

section \<open>A JSON decoder\<close>

text \<open>
  The module calls \<^verbatim>\<open>json.loads\<close> of the standard library, which the definitions above
  take as the parameter \<open>json_loads\<close>. To run the module on concrete texts, this section
  gives a decoder for the grammar that \<^verbatim>\<open>json.loads\<close> accepts: the JSON of RFC 8259 and
  the three constants \<^verbatim>\<open>NaN\<close>, \<^verbatim>\<open>Infinity\<close> and \<^verbatim>\<open>-Infinity\<close>. An object becomes a dict in
  which a repeated key keeps its first position and its last value. A number with a
  fraction or an exponent becomes the exact rational it denotes. The limit on the depth of
  nesting and the limit on the number of digits of an integer are not modelled.
\<close>

datatype token =
    LBrace | RBrace | LBracket | RBracket | Colon | Comma
  | TStr string
  | TVal pyval

definition is_digit :: "char \<Rightarrow> bool" where
  "is_digit c = (48 \<le> code c \<and> code c \<le> 57)"

definition digits_val :: "string \<Rightarrow> nat" where
  "digits_val ds = foldl (\<lambda>n c. 10 * n + (code c - 48)) 0 ds"

definition hex_val :: "char \<Rightarrow> nat option" where
  "hex_val c =
     (let a = code c
      in if 48 \<le> a \<and> a \<le> 57 then Some (a - 48)
         else if 65 \<le> a \<and> a \<le> 70 then Some (a - 55)
         else if 97 \<le> a \<and> a \<le> 102 then Some (a - 87)
         else None)"

definition hex4 :: "string \<Rightarrow> nat option" where
  "hex4 s =
     (case map hex_val (take 4 s) of
        [Some a, Some b, Some c, Some d] \<Rightarrow> Some (((a * 16 + b) * 16 + c) * 16 + d)
      | _ \<Rightarrow> None)"

definition utf8 :: "nat \<Rightarrow> string" where
  \<comment> \<open>the bytes of a code point; a lone surrogate takes the three-byte form\<close>
  "utf8 n =
     (if n < 0x80 then [char_of n]
      else if n < 0x800 then [char_of (0xC0 + n div 64), char_of (0x80 + n mod 64)]
      else if n < 0x10000 then
        [char_of (0xE0 + n div 4096), char_of (0x80 + (n div 64) mod 64),
         char_of (0x80 + n mod 64)]
      else
        [char_of (0xF0 + n div 262144), char_of (0x80 + (n div 4096) mod 64),
         char_of (0x80 + (n div 64) mod 64), char_of (0x80 + n mod 64)])"

definition scan_escape :: "string \<Rightarrow> (string \<times> nat) option" where
  \<comment> \<open>the text after a backslash: the bytes it denotes and the number of characters read\<close>
  "scan_escape r =
     (case r of
        [] \<Rightarrow> None
      | e # r' \<Rightarrow>
          if e = CHR 0x22 then Some ([CHR 0x22], 1)
          else if e = CHR 0x5C then Some ([CHR 0x5C], 1)
          else if e = CHR ''/'' then Some (''/'', 1)
          else if e = CHR ''b'' then Some ([CHR 0x08], 1)
          else if e = CHR ''f'' then Some ([CHR 0x0C], 1)
          else if e = CHR ''n'' then Some ([CHR 0x0A], 1)
          else if e = CHR ''r'' then Some ([CHR 0x0D], 1)
          else if e = CHR ''t'' then Some ([CHR 0x09], 1)
          else if e = CHR ''u'' then
            (case hex4 r' of
               None \<Rightarrow> None
             | Some hi \<Rightarrow>
                 if 0xD800 \<le> hi \<and> hi \<le> 0xDBFF \<and> take 2 (drop 4 r') = [CHR 0x5C, CHR ''u'']
                 then (case hex4 (drop 6 r') of
                         None \<Rightarrow> None
                       | Some lo \<Rightarrow>
                           if 0xDC00 \<le> lo \<and> lo \<le> 0xDFFF
                           then Some (utf8 (0x10000 + (hi - 0xD800) * 1024 + (lo - 0xDC00)), 11)
                           else Some (utf8 hi, 5))
                 else Some (utf8 hi, 5))
          else None)"

function scan_string :: "string \<Rightarrow> (string \<times> nat) option" where
  \<comment> \<open>the text after an opening quote: the decoded string and the number of characters
      read, the closing quote included\<close>
  "scan_string [] = None"
| "scan_string (c # r) =
     (if c = CHR 0x22 then Some ([], 1)
      else if c = CHR 0x5C then
        (case scan_escape r of
           None \<Rightarrow> None
         | Some (bytes, n) \<Rightarrow>
             map_option (\<lambda>(str, m). (bytes @ str, Suc (n + m))) (scan_string (drop n r)))
      else if code c < 32 then None
      else map_option (\<lambda>(str, m). (c # str, Suc m)) (scan_string r))"
  by pat_completeness auto
termination
  by (relation "measure length") auto

definition scan_exponent :: "string \<Rightarrow> (int \<times> nat) option" where
  \<comment> \<open>\<^verbatim>\<open>[eE][-+]?\d+\<close>: its value and its length\<close>
  "scan_exponent s =
     (case s of
        [] \<Rightarrow> None
      | c # r \<Rightarrow>
          if c = CHR ''e'' \<or> c = CHR ''E'' then
            (let signed = (r \<noteq> [] \<and> (hd r = CHR ''+'' \<or> hd r = CHR ''-''));
                 ds = takeWhile is_digit (if signed then tl r else r)
             in if ds = [] then None
                else Some ((if signed \<and> hd r = CHR ''-'' then - int (digits_val ds)
                            else int (digits_val ds)),
                           1 + (if signed then 1 else 0) + length ds))
          else None)"

definition scan_number :: "string \<Rightarrow> (pyval \<times> nat) option" where
  \<comment> \<open>\<^verbatim>\<open>(-?(?:0|[1-9]\d*))(\.\d+)?([eE][-+]?\d+)?\<close> at the head: the number and the length
      of its text\<close>
  "scan_number s =
     (let neg = (s \<noteq> [] \<and> hd s = CHR ''-'');
          s1 = (if neg then tl s else s);
          run = takeWhile is_digit s1
      in if run = [] then None
         else
           (let ip = (if hd run = CHR ''0'' then ''0'' else run);
                s2 = drop (length ip) s1;
                fd = (case s2 of [] \<Rightarrow> [] | c # r \<Rightarrow> if c = CHR ''.'' then takeWhile is_digit r else []);
                fl = (if fd = [] then 0 else Suc (length fd));
                ex = scan_exponent (drop fl s2);
                len = (if neg then 1 else 0) + length ip + fl + (case ex of None \<Rightarrow> 0 | Some (_, n) \<Rightarrow> n)
            in if fd = [] \<and> ex = None
               then Some (PInt (if neg then - int (digits_val ip) else int (digits_val ip)), len)
               else
                 (let m = of_nat (digits_val ip) + of_nat (digits_val fd) / 10 ^ length fd;
                      e = (case ex of None \<Rightarrow> 0 | Some (k, _) \<Rightarrow> k);
                      v = (if 0 \<le> e then m * 10 ^ nat e else m / 10 ^ nat (- e))
                  in Some (PFloat (Finite (if neg then - v else v)), len))))"

definition scan_atom :: "string \<Rightarrow> (pyval \<times> nat) option" where
  \<comment> \<open>a literal, a number or a constant at the head, in the order in which the scanner of
      the library tries them\<close>
  "scan_atom s =
     (if take 4 s = ''null'' then Some (PNone, 4)
      else if take 4 s = ''true'' then Some (PBool True, 4)
      else if take 5 s = ''false'' then Some (PBool False, 5)
      else (case scan_number s of
              Some r \<Rightarrow> Some r
            | None \<Rightarrow>
                if take 3 s = ''NaN'' then Some (PFloat NaN, 3)
                else if take 8 s = ''Infinity'' then Some (PFloat PosInf, 8)
                else if take 9 s = ''-Infinity'' then Some (PFloat NegInf, 9)
                else None))"

function lex :: "string \<Rightarrow> token list option" where
  "lex [] = Some []"
| "lex (c # r) =
     (if c = CHR '' '' \<or> c = CHR 0x09 \<or> c = CHR 0x0A \<or> c = CHR 0x0D then lex r
      else if c = CHR 0x7B then map_option (Cons LBrace) (lex r)
      else if c = CHR 0x7D then map_option (Cons RBrace) (lex r)
      else if c = CHR ''['' then map_option (Cons LBracket) (lex r)
      else if c = CHR '']'' then map_option (Cons RBracket) (lex r)
      else if c = CHR '':'' then map_option (Cons Colon) (lex r)
      else if c = CHR '','' then map_option (Cons Comma) (lex r)
      else if c = CHR 0x22 then
        (case scan_string r of
           None \<Rightarrow> None
         | Some (str, n) \<Rightarrow> map_option (Cons (TStr str)) (lex (drop n r)))
      else
        (case scan_atom (c # r) of
           None \<Rightarrow> None
         | Some (v, n) \<Rightarrow> map_option (Cons (TVal v)) (lex (drop (n - 1) r))))"
  by pat_completeness auto
termination
  by (relation "measure length") auto

text \<open>
  The tokens are read one at a time, with a stack of the arrays and objects that are
  open. \<open>After v\<close> is the state in which the value \<open>v\<close> has just been completed.
\<close>

datatype frame =
    ArrFrame "pyval list"
      \<comment> \<open>an open array: the elements so far\<close>
  | ObjFrame "(string \<times> pyval) list"
      \<comment> \<open>an open object that waits for a key: the members so far\<close>
  | MemberFrame "(string \<times> pyval) list" string
      \<comment> \<open>an open object that waits for the value of a key\<close>

datatype pstate =
    WantValue
  | WantValueOrClose
  | WantKeyOrClose
  | WantKey
  | WantColon string
  | After pyval

definition start_value :: "frame list \<Rightarrow> token \<Rightarrow> (pstate \<times> frame list) option" where
  "start_value fs t =
     (case t of
        LBrace \<Rightarrow> Some (WantKeyOrClose, ObjFrame [] # fs)
      | LBracket \<Rightarrow> Some (WantValueOrClose, ArrFrame [] # fs)
      | TStr s \<Rightarrow> Some (After (PStr s), fs)
      | TVal v \<Rightarrow> Some (After v, fs)
      | _ \<Rightarrow> None)"

definition close_object :: "frame list \<Rightarrow> (pstate \<times> frame list) option" where
  "close_object fs =
     (case fs of ObjFrame kvs # fs' \<Rightarrow> Some (After (PDict kvs), fs') | _ \<Rightarrow> None)"

definition close_array :: "frame list \<Rightarrow> (pstate \<times> frame list) option" where
  "close_array fs =
     (case fs of ArrFrame xs # fs' \<Rightarrow> Some (After (PList xs), fs') | _ \<Rightarrow> None)"

definition after_value :: "pyval \<Rightarrow> frame list \<Rightarrow> token \<Rightarrow> (pstate \<times> frame list) option" where
  "after_value v fs t =
     (case fs of
        ArrFrame xs # fs' \<Rightarrow>
          (case t of
             Comma \<Rightarrow> Some (WantValue, ArrFrame (xs @ [v]) # fs')
           | RBracket \<Rightarrow> Some (After (PList (xs @ [v])), fs')
           | _ \<Rightarrow> None)
      | MemberFrame kvs k # fs' \<Rightarrow>
          (case t of
             Comma \<Rightarrow> Some (WantKey, ObjFrame (AList.update k v kvs) # fs')
           | RBrace \<Rightarrow> Some (After (PDict (AList.update k v kvs)), fs')
           | _ \<Rightarrow> None)
      | _ \<Rightarrow> None)"

definition step :: "pstate \<Rightarrow> frame list \<Rightarrow> token \<Rightarrow> (pstate \<times> frame list) option" where
  "step st fs t =
     (case st of
        WantValue \<Rightarrow> start_value fs t
      | WantValueOrClose \<Rightarrow> (if t = RBracket then close_array fs else start_value fs t)
      | WantKeyOrClose \<Rightarrow>
          (case t of RBrace \<Rightarrow> close_object fs | TStr k \<Rightarrow> Some (WantColon k, fs) | _ \<Rightarrow> None)
      | WantKey \<Rightarrow> (case t of TStr k \<Rightarrow> Some (WantColon k, fs) | _ \<Rightarrow> None)
      | WantColon k \<Rightarrow>
          (case t of
             Colon \<Rightarrow> (case fs of ObjFrame kvs # fs' \<Rightarrow> Some (WantValue, MemberFrame kvs k # fs')
                         | _ \<Rightarrow> None)
           | _ \<Rightarrow> None)
      | After v \<Rightarrow> after_value v fs t)"

fun run_tokens :: "pstate \<Rightarrow> frame list \<Rightarrow> token list \<Rightarrow> pyval option" where
  "run_tokens st fs [] = (case st of After v \<Rightarrow> (if fs = [] then Some v else None) | _ \<Rightarrow> None)"
| "run_tokens st fs (t # ts) =
     (case step st fs t of None \<Rightarrow> None | Some (st', fs') \<Rightarrow> run_tokens st' fs' ts)"

definition json_decode :: "string \<Rightarrow> exn + pyval" where
  "json_decode s =
     (case lex s of
        None \<Rightarrow> Inl JSONDecodeError
      | Some ts \<Rightarrow>
          (case run_tokens WantValue [] ts of None \<Rightarrow> Inl JSONDecodeError | Some v \<Rightarrow> Inr v))"

section \<open>The Listing Fetcher and the Trend Fetcher\<close>

definition reports_success :: "pyval \<Rightarrow> bool" where
  \<comment> \<open>\<^verbatim>\<open>isinstance(raw_response, dict) and raw_response.get('success')\<close>, as a condition\<close>
  "reports_success raw =
     (case raw of
        PDict kvs \<Rightarrow> (case map_of kvs ''success'' of None \<Rightarrow> False | Some v \<Rightarrow> truthy v)
      | _ \<Rightarrow> False)"

definition data_get :: "pyval \<Rightarrow> string \<Rightarrow> exn + pyval" where
  \<comment> \<open>\<^verbatim>\<open>raw_response['data'].get(key, [])\<close>\<close>
  "data_get raw k =
     (case py_item raw ''data'' of Inl e \<Rightarrow> Inl e | Inr dat \<Rightarrow> py_get dat k (PList []))"

definition property_urls :: "string \<Rightarrow> string list" where
  "property_urls formatted_location =
     [''https://www.squareyards.com/sale/property-for-sale-in-'' @ formatted_location @ ''/*'',
      ''https://www.99acres.com/property-in-'' @ formatted_location @ ''-ffid/*'',
      ''https://housing.com/in/buy/'' @ formatted_location @ ''/'' @ formatted_location]"

definition find_properties :: "deps \<Rightarrow> pyval \<Rightarrow> pyval \<Rightarrow> pyval \<Rightarrow> pyval \<Rightarrow> string option eff" where
  \<comment> \<open>lines 66-147; the result is \<^verbatim>\<open>analysis.content\<close>\<close>
  "find_properties d city max_price property_category property_type =
     bind_eff (lift (py_lower d city)) (\<lambda>formatted_location.
       let urls = property_urls formatted_location;
           property_type_prompt =
             (if property_type = PStr ''Flat'' then ''Flats'' else ''Individual Houses'');
           extraction = ExtractPropertiesPrompt property_category property_type_prompt city max_price
       in bind_eff (call (FirecrawlExtract urls extraction) (firecrawl_extract d urls extraction))
            (\<lambda>raw_response.
               bind_eff (lift (if reports_success raw_response
                               then data_get raw_response ''properties''
                               else Inr (PList [])))
                 (\<lambda>properties.
                    let analysis = AnalysisPrompt properties property_category property_type max_price
                    in call (AgentRun analysis) (agent_run d analysis))))"

definition trend_urls :: "string \<Rightarrow> string list" where
  "trend_urls formatted_location =
     [''https://www.99acres.com/property-rates-and-price-trends-in-'' @ formatted_location
        @ ''-prffid/*'']"

definition no_trends_message :: string where
  "no_trends_message = ''No price trends data available''"

definition get_location_trends :: "deps \<Rightarrow> pyval \<Rightarrow> string option eff" where
  \<comment> \<open>lines 149-202\<close>
  "get_location_trends d city =
     bind_eff (lift (py_lower d city)) (\<lambda>formatted_location.
       let urls = trend_urls formatted_location
       in bind_eff (call (FirecrawlExtract urls ExtractTrendsPrompt)
                         (firecrawl_extract d urls ExtractTrendsPrompt))
            (\<lambda>raw_response.
               if reports_success raw_response
               then bind_eff (lift (data_get raw_response ''locations''))
                      (\<lambda>locations.
                         let analysis = TrendsPrompt city locations
                         in call (AgentRun analysis) (agent_run d analysis))
               else ret (Some no_trends_message)))"

section \<open>The Response Assembler\<close>

text \<open>
  The fixed messages of lines 337, 347, 353 and 390 begin with the same three characters,
  U+201A U+00F9 U+00E5, which are seven bytes in the file. The header of line 381 begins,
  after the line feed, with the seven characters U+F8FF U+00FC U+00E8 U+00F2 U+00D4
  U+220F U+00E8, which are sixteen bytes.
\<close>

definition message_mark :: string where
  "message_mark = [CHR 0xE2, CHR 0x80, CHR 0x9A, CHR 0xC3, CHR 0xB9, CHR 0xC3, CHR 0xA5]"

definition header_mark :: string where
  "header_mark =
     [CHR 0xEF, CHR 0xA3, CHR 0xBF, CHR 0xC3, CHR 0xBC, CHR 0xC3, CHR 0xA8, CHR 0xC3, CHR 0xB2,
      CHR 0xC3, CHR 0x94, CHR 0xE2, CHR 0x88, CHR 0x8F, CHR 0xC3, CHR 0xA8]"

definition missing_keys_message :: string where
  "missing_keys_message =
     message_mark @ '' Error: Missing API keys. Please set FIRECRAWL_API_KEY and OPENAI_API_KEY in your .env file.''"

definition no_query_message :: string where
  "no_query_message = message_mark @ '' Please provide a search query!''"

definition no_city_message :: string where
  "no_city_message =
     message_mark @ '' Couldn'' @ [CHR 0x27] @ ''t determine which city you'' @ [CHR 0x27]
       @ ''re interested in. Please specify a city.''"

definition generic_error_message :: string where
  "generic_error_message =
     message_mark @ '' An error occurred while processing your request. Please try again later.''"

definition recommendations_header :: string where
  "recommendations_header =
     [CHR 0x0A] @ header_mark @ '' PROPERTY RECOMMENDATIONS'' @ [CHR 0x0A]
       @ ''--------------------------------------------------'' @ [CHR 0x0A]"

definition py_str :: "string option \<Rightarrow> string" where
  \<comment> \<open>the rendering of a content in an f-string\<close>
  "py_str c = (case c of None \<Rightarrow> ''None'' | Some s \<Rightarrow> s)"

definition key_present :: "string option \<Rightarrow> bool" where
  \<comment> \<open>the truthiness of what \<^verbatim>\<open>os.getenv\<close> returns\<close>
  "key_present k = (case k of None \<Rightarrow> False | Some s \<Rightarrow> s \<noteq> [])"

definition generate_response_body :: "deps \<Rightarrow> string \<Rightarrow> string eff" where
  \<comment> \<open>lines 331-387, the body of the \<^verbatim>\<open>try\<close>\<close>
  "generate_response_body d message_body =
     (let firecrawl_key = getenv d ''FIRECRAWL_API_KEY'';
          openai_key = getenv d ''OPENAI_API_KEY'';
          model_id = (case getenv d ''OPENAI_MODEL_ID'' of None \<Rightarrow> ''gpt-3.5-turbo'' | Some m \<Rightarrow> m)
      in if \<not> key_present firecrawl_key \<or> \<not> key_present openai_key
         then ret missing_keys_message
         else
           bind_eff (call (Construct (the firecrawl_key) (the openai_key) model_id)
                          (case construct_agent d (the firecrawl_key) (the openai_key) model_id of
                             None \<Rightarrow> Inr () | Some e \<Rightarrow> Inl e))
             (\<lambda>property_agent.
                if message_body = [] then ret no_query_message
                else
                  bind_eff (interpret_user_query d message_body) (\<lambda>params.
                  bind_eff (lift (py_get params ''city'' PNone)) (\<lambda>city_or_none.
                    if \<not> truthy city_or_none then ret no_city_message
                    else
                      bind_eff (lift (py_get params ''city'' PNone)) (\<lambda>city.
                      bind_eff (lift (py_get params ''max_price'' default_max_price)) (\<lambda>max_price.
                      bind_eff (lift (py_get params ''property_category'' (PStr ''Residential'')))
                        (\<lambda>property_category.
                      bind_eff (lift (py_get params ''property_type'' (PStr ''Flat'')))
                        (\<lambda>property_type.
                      bind_eff (find_properties d city max_price property_category property_type)
                        (\<lambda>property_results.
                           ret (recommendations_header @ py_str property_results
                                  @ [CHR 0x0A]))))))))))"

definition generate_response :: "deps \<Rightarrow> string \<Rightarrow> string eff" where
  \<comment> \<open>lines 328-390\<close>
  "generate_response d message_body =
     try_except (generate_response_body d message_body)
       (\<lambda>e. bind_eff (call (LogError e) (Inr ())) (\<lambda>_. ret generic_error_message))"

section \<open>Sample collaborators\<close>

text \<open>
  Concrete environments and collaborators, on which the definitions can be run. In
  \<open>world\<close> the constructor and the three services answer the same on every argument,
  the decoder is \<open>json_decode\<close>, and \<open>str_lower\<close> lowers the ASCII letters, which is
  what \<^verbatim>\<open>str.lower\<close> does on the ASCII texts of the runs below.
\<close>

definition env_ok :: "string \<Rightarrow> string option" where
  \<comment> \<open>both keys are set, the model id is not\<close>
  "env_ok k =
     (if k = ''FIRECRAWL_API_KEY'' then Some ''fc-key''
      else if k = ''OPENAI_API_KEY'' then Some ''sk-key''
      else None)"

definition env_no_openai :: "string \<Rightarrow> string option" where
  "env_no_openai k = (if k = ''FIRECRAWL_API_KEY'' then Some ''fc-key'' else None)"

definition world ::
  "(string \<Rightarrow> string option) \<Rightarrow> exn option \<Rightarrow> (exn + string option) \<Rightarrow> (exn + pyval)
     \<Rightarrow> (exn + string option) \<Rightarrow> deps" where
  "world env constructed interpretation extraction summary =
     \<lparr>getenv = env,
      construct_agent = (\<lambda>_ _ _. constructed),
      interpreter_run = (\<lambda>_. interpretation),
      agent_run = (\<lambda>_. summary),
      firecrawl_extract = (\<lambda>_ _. extraction),
      json_loads = json_decode,
      str_lower = map lower_char\<rparr>"

definition quoted :: "string \<Rightarrow> string" where
  \<comment> \<open>a text between double quotes\<close>
  "quoted s = [CHR 0x22] @ s @ [CHR 0x22]"

definition pune_json :: string where
  \<comment> \<open>\<^verbatim>\<open>{"city":"Pune","max_price":2,"property_category":"Residential","property_type":"Flat"}\<close>\<close>
  "pune_json =
     [CHR 0x7B] @ quoted ''city'' @ '':'' @ quoted ''Pune'' @ '',''
       @ quoted ''max_price'' @ '':2,''
       @ quoted ''property_category'' @ '':'' @ quoted ''Residential'' @ '',''
       @ quoted ''property_type'' @ '':'' @ quoted ''Flat'' @ [CHR 0x7D]"

definition null_price_json :: string where
  \<comment> \<open>\<^verbatim>\<open>{"city": "Pune", "max_price": null}\<close>\<close>
  "null_price_json =
     [CHR 0x7B] @ quoted ''city'' @ '': '' @ quoted ''Pune'' @ '', ''
       @ quoted ''max_price'' @ '': null'' @ [CHR 0x7D]"

definition unquoted_braces :: string where
  \<comment> \<open>\<^verbatim>\<open>{city: Pune}\<close>: braces around a text that is not JSON\<close>
  "unquoted_braces = [CHR 0x7B] @ ''city: Pune'' @ [CHR 0x7D]"

definition three_records :: pyval where
  "three_records =
     PList [PDict [(''building_name'', PStr ''A'')], PDict [(''building_name'', PStr ''B'')],
            PDict [(''building_name'', PStr ''C'')]]"

section \<open>Properties\<close>

subsection \<open>The effect combinators and the shape of each function\<close>

lemma bind_eff_Inl: "bind_eff (Inl e, t) f = (Inl e, t)"
  by (simp add: bind_eff_def)

lemma bind_eff_Inr: "bind_eff (Inr x, t) f = (fst (f x), t @ snd (f x))"
  by (simp add: bind_eff_def split: prod.splits)

lemma try_except_Inl: "try_except (Inl e, t) h = (fst (h e), t @ snd (h e))"
  by (simp add: try_except_def split: prod.splits)

lemma try_except_Inr: "try_except (Inr x, t) h = (Inr x, t)"
  by (simp add: try_except_def)

lemmas eff_simps = bind_eff_Inl bind_eff_Inr try_except_Inl try_except_Inr ret_def lift_def call_def

lemma interpret_user_query_eq:
  "interpret_user_query d q =
     (case interpreter_run d (InterpretPrompt q) of
        Inl e \<Rightarrow> (Inl e, [InterpreterRun (InterpretPrompt q)])
      | Inr c \<Rightarrow> (case parse_content d c of
                   Inl e \<Rightarrow> (Inr (PDict []), [InterpreterRun (InterpretPrompt q)])
                 | Inr v \<Rightarrow> (Inr v, [InterpreterRun (InterpretPrompt q)])))"
  by (simp add: interpret_user_query_def eff_simps split: sum.splits)


lemma find_properties_str:
  "find_properties d (PStr c) mp pc pt =
     (let urls = property_urls (str_lower d c);
          extraction = ExtractPropertiesPrompt pc (if pt = PStr ''Flat'' then ''Flats'' else ''Individual Houses'') (PStr c) mp
      in case firecrawl_extract d urls extraction of
           Inl e \<Rightarrow> (Inl e, [FirecrawlExtract urls extraction])
         | Inr raw \<Rightarrow>
             (case (if reports_success raw then data_get raw ''properties'' else Inr (PList [])) of
                Inl e \<Rightarrow> (Inl e, [FirecrawlExtract urls extraction])
              | Inr props \<Rightarrow>
                  (agent_run d (AnalysisPrompt props pc pt mp),
                   [FirecrawlExtract urls extraction, AgentRun (AnalysisPrompt props pc pt mp)])))"
  by (simp add: find_properties_def py_lower_def eff_simps Let_def split: sum.splits)

lemma find_properties_not_str:
  "(\<forall>c. city \<noteq> PStr c) \<Longrightarrow> find_properties d city mp pc pt = (Inl AttributeError, [])"
  by (cases city) (simp_all add: find_properties_def py_lower_def eff_simps)


lemma find_properties_content:
  "find_properties d city mp pc pt = (Inr r, t) \<Longrightarrow>
     \<exists>props. agent_run d (AnalysisPrompt props pc pt mp) = Inr r
       \<and> AgentRun (AnalysisPrompt props pc pt mp) \<in> set t"
proof (cases "\<exists>c. city = PStr c")
  case True
  assume a: "find_properties d city mp pc pt = (Inr r, t)"
  from True obtain c where c: "city = PStr c" by blast
  from a show ?thesis unfolding c
    by (auto simp: find_properties_str Let_def split: sum.splits if_splits)
next
  case False
  assume "find_properties d city mp pc pt = (Inr r, t)"
  with False show ?thesis by (simp add: find_properties_not_str)
qed

lemma body_missing_keys:
  "\<not> key_present (getenv d ''FIRECRAWL_API_KEY'') \<or> \<not> key_present (getenv d ''OPENAI_API_KEY'') \<Longrightarrow>
     generate_response_body d m = (Inr missing_keys_message, [])"
  by (auto simp: generate_response_body_def Let_def ret_def)

lemma body_with_keys:
  assumes "getenv d ''FIRECRAWL_API_KEY'' = Some fk" "fk \<noteq> []"
    and "getenv d ''OPENAI_API_KEY'' = Some ok" "ok \<noteq> []"
    and "mid = (case getenv d ''OPENAI_MODEL_ID'' of None \<Rightarrow> ''gpt-3.5-turbo'' | Some x \<Rightarrow> x)"
  shows "generate_response_body d m =
     (case construct_agent d fk ok mid of
        Some e \<Rightarrow> (Inl e, [Construct fk ok mid])
      | None \<Rightarrow>
          if m = [] then (Inr no_query_message, [Construct fk ok mid])
          else (case interpret_user_query d m of
                  (Inl e, t1) \<Rightarrow> (Inl e, Construct fk ok mid # t1)
                | (Inr params, t1) \<Rightarrow>
                    (case py_get params ''city'' PNone of
                       Inl e \<Rightarrow> (Inl e, Construct fk ok mid # t1)
                     | Inr cv \<Rightarrow>
                         if \<not> truthy cv then (Inr no_city_message, Construct fk ok mid # t1)
                         else
                           (case find_properties d cv
                                   (case py_get params ''max_price'' default_max_price of Inr v \<Rightarrow> v | Inl _ \<Rightarrow> PNone)
                                   (case py_get params ''property_category'' (PStr ''Residential'') of Inr v \<Rightarrow> v | Inl _ \<Rightarrow> PNone)
                                   (case py_get params ''property_type'' (PStr ''Flat'') of Inr v \<Rightarrow> v | Inl _ \<Rightarrow> PNone) of
                              (Inl e, t2) \<Rightarrow> (Inl e, Construct fk ok mid # t1 @ t2)
                            | (Inr r, t2) \<Rightarrow>
                                (Inr (recommendations_header @ py_str r @ [CHR 0x0A]),
                                 Construct fk ok mid # t1 @ t2)))))"
  using assms
  by (auto simp: generate_response_body_def key_present_def Let_def eff_simps py_get_def
           split: option.splits sum.splits prod.splits pyval.splits)




subsection \<open>The top-level handler\<close>




subsection \<open>Missing credentials\<close>

text \<open>
  Claim C2. If the extraction key \<^verbatim>\<open>FIRECRAWL_API_KEY\<close> or the text-generation key
  \<^verbatim>\<open>OPENAI_API_KEY\<close> is absent from the environment, \<open>generate_response\<close> returns the
  fixed missing-keys message for every message, and nothing else happens: the list of
  events is empty, so no agent is constructed and no interpretation, extraction or
  generation call is made.
\<close>

theorem missing_keys_no_processing:
  assumes "getenv d ''FIRECRAWL_API_KEY'' = None \<or> getenv d ''OPENAI_API_KEY'' = None"
  shows "generate_response d m = (Inr missing_keys_message, [])"
proof -
  from assms have "\<not> key_present (getenv d ''FIRECRAWL_API_KEY'')
      \<or> \<not> key_present (getenv d ''OPENAI_API_KEY'')"
    by (auto simp: key_present_def)
  then have "generate_response_body d m = (Inr missing_keys_message, [])"
    by (rule body_missing_keys)
  then show ?thesis by (simp add: generate_response_def try_except_Inr)
qed

theorem missing_keys_no_processing_witness:
  "getenv (world env_no_openai None (Inr (Some pune_json)) (Inr PNone) (Inr (Some ''report'')))
       ''OPENAI_API_KEY'' = None
   \<and> generate_response (world env_no_openai None (Inr (Some pune_json)) (Inr PNone) (Inr (Some ''report'')))
       ''flats in Pune'' = (Inr missing_keys_message, [])"
proof -
  let ?w = "world env_no_openai None (Inr (Some pune_json)) (Inr PNone) (Inr (Some ''report''))"
  have h: "getenv ?w ''OPENAI_API_KEY'' = None"
    by (simp add: world_def env_no_openai_def)
  then have "getenv ?w ''FIRECRAWL_API_KEY'' = None \<or> getenv ?w ''OPENAI_API_KEY'' = None" ..
  from missing_keys_no_processing [OF this] h show ?thesis by blast
qed

subsection \<open>Failures inside the Query Interpreter\<close>

text \<open>
  Claim C3 says that \<open>interpret_user_query\<close> returns the empty mapping when the
  text-generation call raises. The call is made before the \<^verbatim>\<open>try\<close> (lines 206-227), so
  its exception leaves the function: here the agent raises and the result is that
  exception, not the empty mapping.
\<close>

theorem interpret_query_generation_failure_propagates:
  "interpret_user_query (world env_ok None (Inl (External ''timeout'')) (Inr PNone) (Inr None))
       ''flats in Pune''
     = (Inl (External ''timeout''), [InterpreterRun (InterpretPrompt ''flats in Pune'')])
   \<and> fst (interpret_user_query (world env_ok None (Inl (External ''timeout'')) (Inr PNone) (Inr None))
       ''flats in Pune'') \<noteq> Inr (PDict [])"
  by (simp add: interpret_user_query_eq world_def)

text \<open>
  Claim C3, amended. When a parsing step raises (\<^verbatim>\<open>re.search\<close> on a content that is
  \<^verbatim>\<open>None\<close>, or the decoder on the brace-delimited substring), \<open>interpret_user_query\<close>
  returns the empty mapping. An exception of the text-generation call itself is not
  caught there and is passed on to the caller.
\<close>

theorem interpret_query_parse_failure_empty:
  "(interpreter_run d (InterpretPrompt q) = Inr None \<longrightarrow>
      interpret_user_query d q = (Inr (PDict []), [InterpreterRun (InterpretPrompt q)]))
   \<and> (\<forall>s g e. interpreter_run d (InterpretPrompt q) = Inr (Some s) \<and> brace_group s = Some g
          \<and> json_loads d g = Inl e \<longrightarrow>
      interpret_user_query d q = (Inr (PDict []), [InterpreterRun (InterpretPrompt q)]))
   \<and> (\<forall>e. interpreter_run d (InterpretPrompt q) = Inl e \<longrightarrow>
      interpret_user_query d q = (Inl e, [InterpreterRun (InterpretPrompt q)]))"
  by (auto simp: interpret_user_query_eq parse_content_def)

theorem interpret_query_parse_failure_empty_witness:
  "interpret_user_query (world env_ok None (Inr None) (Inr PNone) (Inr None)) ''flats in Pune''
     = (Inr (PDict []), [InterpreterRun (InterpretPrompt ''flats in Pune'')])
   \<and> interpret_user_query (world env_ok None (Inr (Some unquoted_braces)) (Inr PNone) (Inr None))
         ''flats in Pune''
     = (Inr (PDict []), [InterpreterRun (InterpretPrompt ''flats in Pune'')])
   \<and> interpret_user_query (world env_ok None (Inl (External ''timeout'')) (Inr PNone) (Inr None))
         ''flats in Pune''
     = (Inl (External ''timeout''), [InterpreterRun (InterpretPrompt ''flats in Pune'')])"
proof -
  let ?w1 = "world env_ok None (Inr None) (Inr PNone) (Inr None)"
  let ?w2 = "world env_ok None (Inr (Some unquoted_braces)) (Inr PNone) (Inr None)"
  let ?w3 = "world env_ok None (Inl (External ''timeout'')) (Inr PNone) (Inr None)"
  let ?q = "''flats in Pune''"
  have h1: "interpreter_run ?w1 (InterpretPrompt ?q) = Inr None"
    by (simp add: world_def)
  have h2: "interpreter_run ?w2 (InterpretPrompt ?q) = Inr (Some unquoted_braces)
      \<and> brace_group unquoted_braces = Some unquoted_braces
      \<and> json_loads ?w2 unquoted_braces = Inl JSONDecodeError"
  proof (intro conjI)
    show "interpreter_run ?w2 (InterpretPrompt ?q) = Inr (Some unquoted_braces)"
      by (simp add: world_def)
    show "brace_group unquoted_braces = Some unquoted_braces" by code_simp
    have "json_decode unquoted_braces = Inl JSONDecodeError" by code_simp
    then show "json_loads ?w2 unquoted_braces = Inl JSONDecodeError"
      by (simp add: world_def)
  qed
  have h3: "interpreter_run ?w3 (InterpretPrompt ?q) = Inl (External ''timeout'')"
    by (simp add: world_def)
  from interpret_query_parse_failure_empty [of ?w1 ?q] h1
  have r1: "interpret_user_query ?w1 ?q = (Inr (PDict []), [InterpreterRun (InterpretPrompt ?q)])"
    by blast
  from interpret_query_parse_failure_empty [of ?w2 ?q] h2
  have r2: "interpret_user_query ?w2 ?q = (Inr (PDict []), [InterpreterRun (InterpretPrompt ?q)])"
    by blast
  from interpret_query_parse_failure_empty [of ?w3 ?q] h3
  have r3: "interpret_user_query ?w3 ?q = (Inl (External ''timeout''), [InterpreterRun (InterpretPrompt ?q)])"
    by blast
  from r1 r2 r3 show ?thesis by blast
qed

subsection \<open>The empty message\<close>




subsection \<open>The fallback of the Query Interpreter\<close>

text \<open>
  Claim C4 says that the parser falls back to the secondary pattern whenever the decoding
  of the brace-delimited substring fails. The secondary pattern is in the \<^verbatim>\<open>else\<close> branch
  of \<^verbatim>\<open>if match\<close> (lines 235-245): it is tried only when there is no such substring. On
  the content \<^verbatim>\<open>{city: Pune}\<close> the substring is found, the decoder rejects it, and the
  result is the empty mapping, although the secondary pattern would match.
\<close>

theorem interpret_query_decode_failure_no_fallback:
  "brace_group unquoted_braces = Some unquoted_braces
   \<and> json_decode unquoted_braces = Inl JSONDecodeError
   \<and> city_search unquoted_braces = Some ''Pune}''
   \<and> interpret_user_query (world env_ok None (Inr (Some unquoted_braces)) (Inr PNone) (Inr None))
         ''flats in Pune''
     = (Inr (PDict []), [InterpreterRun (InterpretPrompt ''flats in Pune'')])"
  by code_simp

text \<open>
  Claim C4, amended. The parser first looks for a brace-delimited substring, from the
  first opening brace to the last closing brace. When there is none, it falls back to the
  secondary pattern: the result maps \<^verbatim>\<open>city\<close> to the matched name (or to \<^verbatim>\<open>None\<close>) and the
  other fields to the defaults 5.0, \<^verbatim>\<open>Residential\<close> and \<^verbatim>\<open>Flat\<close>. When there is one, it is
  decoded and the decoded value is the result; when the decoding fails, the result is the
  empty mapping.
\<close>

theorem interpret_query_fallback_when_no_braces:
  "(\<forall>s. interpreter_run d (InterpretPrompt q) = Inr (Some s) \<and> brace_group s = None \<longrightarrow>
      fst (interpret_user_query d q) =
        Inr (PDict [(''city'', case city_search s of None \<Rightarrow> PNone | Some c \<Rightarrow> PStr c),
                    (''max_price'', PFloat (Finite 5)),
                    (''property_category'', PStr ''Residential''),
                    (''property_type'', PStr ''Flat'')]))
   \<and> (\<forall>s g v. interpreter_run d (InterpretPrompt q) = Inr (Some s) \<and> brace_group s = Some g
          \<and> json_loads d g = Inr v \<longrightarrow>
      fst (interpret_user_query d q) = Inr v)
   \<and> (\<forall>s g e. interpreter_run d (InterpretPrompt q) = Inr (Some s) \<and> brace_group s = Some g
          \<and> json_loads d g = Inl e \<longrightarrow>
      fst (interpret_user_query d q) = Inr (PDict []))"
  by (auto simp: interpret_user_query_eq parse_content_def default_max_price_def)

theorem interpret_query_fallback_when_no_braces_witness:
  "fst (interpret_user_query (world env_ok None (Inr (Some ''The city: Pune, I think'')) (Inr PNone) (Inr None))
          ''flats in Pune'')
     = Inr (PDict [(''city'', PStr ''Pune''), (''max_price'', PFloat (Finite 5)),
                   (''property_category'', PStr ''Residential''), (''property_type'', PStr ''Flat'')])
   \<and> fst (interpret_user_query (world env_ok None (Inr (Some pune_json)) (Inr PNone) (Inr None))
          ''flats in Pune'')
     = Inr (PDict [(''city'', PStr ''Pune''), (''max_price'', PInt 2),
                   (''property_category'', PStr ''Residential''), (''property_type'', PStr ''Flat'')])
   \<and> fst (interpret_user_query (world env_ok None (Inr (Some unquoted_braces)) (Inr PNone) (Inr None))
          ''flats in Pune'')
     = Inr (PDict [])"
proof -
  let ?w1 = "world env_ok None (Inr (Some ''The city: Pune, I think'')) (Inr PNone) (Inr None)"
  let ?w2 = "world env_ok None (Inr (Some pune_json)) (Inr PNone) (Inr None)"
  let ?w3 = "world env_ok None (Inr (Some unquoted_braces)) (Inr PNone) (Inr None)"
  let ?q = "''flats in Pune''"
  have b1: "brace_group ''The city: Pune, I think'' = None" by code_simp
  have c1: "city_search ''The city: Pune, I think'' = Some ''Pune''" by code_simp
  have h1: "interpreter_run ?w1 (InterpretPrompt ?q) = Inr (Some ''The city: Pune, I think'')
      \<and> brace_group ''The city: Pune, I think'' = None"
    using b1 by (simp add: world_def)
  have b2: "brace_group pune_json = Some pune_json" by code_simp
  have d2: "json_decode pune_json =
      Inr (PDict [(''city'', PStr ''Pune''), (''max_price'', PInt 2),
                  (''property_category'', PStr ''Residential''), (''property_type'', PStr ''Flat'')])"
    by code_simp
  have h2: "interpreter_run ?w2 (InterpretPrompt ?q) = Inr (Some pune_json)
      \<and> brace_group pune_json = Some pune_json
      \<and> json_loads ?w2 pune_json =
          Inr (PDict [(''city'', PStr ''Pune''), (''max_price'', PInt 2),
                  (''property_category'', PStr ''Residential''), (''property_type'', PStr ''Flat'')])"
    using b2 d2 by (simp add: world_def)
  have b3: "brace_group unquoted_braces = Some unquoted_braces" by code_simp
  have d3: "json_decode unquoted_braces = Inl JSONDecodeError" by code_simp
  have h3: "interpreter_run ?w3 (InterpretPrompt ?q) = Inr (Some unquoted_braces)
      \<and> brace_group unquoted_braces = Some unquoted_braces
      \<and> json_loads ?w3 unquoted_braces = Inl JSONDecodeError"
    using b3 d3 by (simp add: world_def)
  note t1 = interpret_query_fallback_when_no_braces [of ?w1 ?q]
  note t2 = interpret_query_fallback_when_no_braces [of ?w2 ?q]
  note t3 = interpret_query_fallback_when_no_braces [of ?w3 ?q]
  from t1 h1 have r1: "fst (interpret_user_query ?w1 ?q) =
        Inr (PDict [(''city'', case city_search ''The city: Pune, I think'' of None \<Rightarrow> PNone | Some c \<Rightarrow> PStr c),
                    (''max_price'', PFloat (Finite 5)),
                    (''property_category'', PStr ''Residential''),
                    (''property_type'', PStr ''Flat'')])"
    by blast
  from t2 h2 have r2: "fst (interpret_user_query ?w2 ?q) =
      Inr (PDict [(''city'', PStr ''Pune''), (''max_price'', PInt 2),
                  (''property_category'', PStr ''Residential''), (''property_type'', PStr ''Flat'')])"
    by blast
  from t3 h3 have r3: "fst (interpret_user_query ?w3 ?q) = Inr (PDict [])"
    by blast
  from r1 [unfolded c1] r2 r3 show ?thesis by simp
qed

subsection \<open>The Listing Fetcher\<close>

text \<open>
  Claim C6. Let the city be a string and let the extraction client return \<open>raw\<close>. If
  \<open>raw\<close> is not a mapping, or is a mapping whose \<^verbatim>\<open>success\<close> entry is missing or false,
  the list of properties is empty: no exception is raised by this handling, the
  Summarizer is still invoked, with the empty list, and the result of \<open>find_properties\<close>
  is the outcome of that call. If \<open>raw\<close> is a mapping with \<^verbatim>\<open>success\<close> true, the list is
  taken from \<^verbatim>\<open>raw['data']['properties']\<close>.
\<close>

theorem find_properties_unsuccessful_extraction:
  assumes "firecrawl_extract d (property_urls (str_lower d c))
             (ExtractPropertiesPrompt pc (if pt = PStr ''Flat'' then ''Flats'' else ''Individual Houses'')
                (PStr c) mp) = Inr raw"
  shows "((\<forall>kvs. raw \<noteq> PDict kvs)
          \<or> (\<exists>kvs. raw = PDict kvs
                \<and> (map_of kvs ''success'' = None \<or> map_of kvs ''success'' = Some (PBool False)))
        \<longrightarrow> find_properties d (PStr c) mp pc pt =
              (agent_run d (AnalysisPrompt (PList []) pc pt mp),
               [FirecrawlExtract (property_urls (str_lower d c))
                  (ExtractPropertiesPrompt pc
                     (if pt = PStr ''Flat'' then ''Flats'' else ''Individual Houses'') (PStr c) mp),
                AgentRun (AnalysisPrompt (PList []) pc pt mp)]))
     \<and> (\<forall>kvs dat recs. raw = PDict kvs \<and> map_of kvs ''success'' = Some (PBool True)
            \<and> map_of kvs ''data'' = Some (PDict dat) \<and> map_of dat ''properties'' = Some recs
        \<longrightarrow> find_properties d (PStr c) mp pc pt =
              (agent_run d (AnalysisPrompt recs pc pt mp),
               [FirecrawlExtract (property_urls (str_lower d c))
                  (ExtractPropertiesPrompt pc
                     (if pt = PStr ''Flat'' then ''Flats'' else ''Individual Houses'') (PStr c) mp),
                AgentRun (AnalysisPrompt recs pc pt mp)]))"
proof (intro conjI allI impI)
  assume "(\<forall>kvs. raw \<noteq> PDict kvs)
          \<or> (\<exists>kvs. raw = PDict kvs
                \<and> (map_of kvs ''success'' = None \<or> map_of kvs ''success'' = Some (PBool False)))"
  then have "\<not> reports_success raw"
    by (cases raw) (auto simp: reports_success_def)
  then show "find_properties d (PStr c) mp pc pt =
              (agent_run d (AnalysisPrompt (PList []) pc pt mp),
               [FirecrawlExtract (property_urls (str_lower d c))
                  (ExtractPropertiesPrompt pc
                     (if pt = PStr ''Flat'' then ''Flats'' else ''Individual Houses'') (PStr c) mp),
                AgentRun (AnalysisPrompt (PList []) pc pt mp)])"
    using assms by (simp add: find_properties_str Let_def)
next
  fix kvs dat recs
  assume a: "raw = PDict kvs \<and> map_of kvs ''success'' = Some (PBool True)
            \<and> map_of kvs ''data'' = Some (PDict dat) \<and> map_of dat ''properties'' = Some recs"
  then have "reports_success raw" and "data_get raw ''properties'' = Inr recs"
    by (simp_all add: reports_success_def data_get_def py_item_def py_get_def)
  then show "find_properties d (PStr c) mp pc pt =
              (agent_run d (AnalysisPrompt recs pc pt mp),
               [FirecrawlExtract (property_urls (str_lower d c))
                  (ExtractPropertiesPrompt pc
                     (if pt = PStr ''Flat'' then ''Flats'' else ''Individual Houses'') (PStr c) mp),
                AgentRun (AnalysisPrompt recs pc pt mp)])"
    using assms by (simp add: find_properties_str Let_def)
qed

theorem find_properties_unsuccessful_extraction_witness:
  "find_properties (world env_ok None (Inr None) (Inr (PDict [(''success'', PBool False)]))
        (Inr (Some ''report''))) (PStr ''Pune'') (PInt 2) (PStr ''Residential'') (PStr ''Flat'')
     = (Inr (Some ''report''),
        [FirecrawlExtract (property_urls ''pune'')
           (ExtractPropertiesPrompt (PStr ''Residential'') ''Flats'' (PStr ''Pune'') (PInt 2)),
         AgentRun (AnalysisPrompt (PList []) (PStr ''Residential'') (PStr ''Flat'') (PInt 2))])
   \<and> find_properties (world env_ok None (Inr None)
        (Inr (PDict [(''success'', PBool True), (''data'', PDict [(''properties'', three_records)])]))
        (Inr (Some ''report''))) (PStr ''Pune'') (PInt 2) (PStr ''Residential'') (PStr ''Flat'')
     = (Inr (Some ''report''),
        [FirecrawlExtract (property_urls ''pune'')
           (ExtractPropertiesPrompt (PStr ''Residential'') ''Flats'' (PStr ''Pune'') (PInt 2)),
         AgentRun (AnalysisPrompt three_records (PStr ''Residential'') (PStr ''Flat'') (PInt 2))])"
proof -
  let ?raw1 = "PDict [(''success'', PBool False)]"
  let ?raw2 = "PDict [(''success'', PBool True), (''data'', PDict [(''properties'', three_records)])]"
  let ?w1 = "world env_ok None (Inr None) (Inr ?raw1) (Inr (Some ''report''))"
  let ?w2 = "world env_ok None (Inr None) (Inr ?raw2) (Inr (Some ''report''))"
  have l1: "str_lower ?w1 ''Pune'' = ''pune''" and l2: "str_lower ?w2 ''Pune'' = ''pune''"
    by code_simp+
  have e1: "firecrawl_extract ?w1 (property_urls (str_lower ?w1 ''Pune''))
             (ExtractPropertiesPrompt (PStr ''Residential'')
                (if PStr ''Flat'' = PStr ''Flat'' then ''Flats'' else ''Individual Houses'')
                (PStr ''Pune'') (PInt 2)) = Inr ?raw1"
    by (simp add: world_def)
  have e2: "firecrawl_extract ?w2 (property_urls (str_lower ?w2 ''Pune''))
             (ExtractPropertiesPrompt (PStr ''Residential'')
                (if PStr ''Flat'' = PStr ''Flat'' then ''Flats'' else ''Individual Houses'')
                (PStr ''Pune'') (PInt 2)) = Inr ?raw2"
    by (simp add: world_def)
  have s1: "(\<forall>kvs. ?raw1 \<noteq> PDict kvs)
          \<or> (\<exists>kvs. ?raw1 = PDict kvs
                \<and> (map_of kvs ''success'' = None \<or> map_of kvs ''success'' = Some (PBool False)))"
    by simp
  have s2: "?raw2 = PDict [(''success'', PBool True), (''data'', PDict [(''properties'', three_records)])]
      \<and> map_of [(''success'', PBool True), (''data'', PDict [(''properties'', three_records)])] ''success''
          = Some (PBool True)
      \<and> map_of [(''success'', PBool True), (''data'', PDict [(''properties'', three_records)])] ''data''
          = Some (PDict [(''properties'', three_records)])
      \<and> map_of [(''properties'', three_records)] ''properties'' = Some three_records"
    by simp
  have a1: "agent_run ?w1 = (\<lambda>_. Inr (Some ''report''))" and a2: "agent_run ?w2 = (\<lambda>_. Inr (Some ''report''))"
    by (simp_all add: world_def)
  from find_properties_unsuccessful_extraction [OF e1] s1
  have r1: "find_properties ?w1 (PStr ''Pune'') (PInt 2) (PStr ''Residential'') (PStr ''Flat'') =
              (agent_run ?w1 (AnalysisPrompt (PList []) (PStr ''Residential'') (PStr ''Flat'') (PInt 2)),
               [FirecrawlExtract (property_urls (str_lower ?w1 ''Pune''))
                  (ExtractPropertiesPrompt (PStr ''Residential'')
                     (if PStr ''Flat'' = PStr ''Flat'' then ''Flats'' else ''Individual Houses'')
                     (PStr ''Pune'') (PInt 2)),
                AgentRun (AnalysisPrompt (PList []) (PStr ''Residential'') (PStr ''Flat'') (PInt 2))])"
    by blast
  from find_properties_unsuccessful_extraction [OF e2] s2
  have r2: "find_properties ?w2 (PStr ''Pune'') (PInt 2) (PStr ''Residential'') (PStr ''Flat'') =
              (agent_run ?w2 (AnalysisPrompt three_records (PStr ''Residential'') (PStr ''Flat'') (PInt 2)),
               [FirecrawlExtract (property_urls (str_lower ?w2 ''Pune''))
                  (ExtractPropertiesPrompt (PStr ''Residential'')
                     (if PStr ''Flat'' = PStr ''Flat'' then ''Flats'' else ''Individual Houses'')
                     (PStr ''Pune'') (PInt 2)),
                AgentRun (AnalysisPrompt three_records (PStr ''Residential'') (PStr ''Flat'') (PInt 2))])"
    by blast
  from r1 [unfolded l1 a1] r2 [unfolded l2 a2] show ?thesis by simp
qed

subsection \<open>The Trend Fetcher\<close>

lemma get_location_trends_str:
  "get_location_trends d (PStr c) =
     (let urls = trend_urls (str_lower d c)
      in case firecrawl_extract d urls ExtractTrendsPrompt of
           Inl e \<Rightarrow> (Inl e, [FirecrawlExtract urls ExtractTrendsPrompt])
         | Inr raw \<Rightarrow>
             if reports_success raw
             then (case data_get raw ''locations'' of
                     Inl e \<Rightarrow> (Inl e, [FirecrawlExtract urls ExtractTrendsPrompt])
                   | Inr locs \<Rightarrow>
                       (agent_run d (TrendsPrompt (PStr c) locs),
                        [FirecrawlExtract urls ExtractTrendsPrompt,
                         AgentRun (TrendsPrompt (PStr c) locs)]))
             else (Inr (Some no_trends_message), [FirecrawlExtract urls ExtractTrendsPrompt]))"
  by (simp add: get_location_trends_def py_lower_def eff_simps Let_def split: sum.splits)

text \<open>
  Claim C9 gives the sentinel as \<^verbatim>\<open>"No price trends data available."\<close>, with a full stop.
  The string returned at line 202 has no full stop.
\<close>

theorem trends_sentinel_has_no_period:
  "get_location_trends (world env_ok None (Inr None) (Inr (PDict [(''success'', PBool False)]))
       (Inr (Some ''report''))) (PStr ''Pune'')
     = (Inr (Some ''No price trends data available''),
        [FirecrawlExtract (trend_urls ''pune'') ExtractTrendsPrompt])
   \<and> fst (get_location_trends (world env_ok None (Inr None) (Inr (PDict [(''success'', PBool False)]))
       (Inr (Some ''report''))) (PStr ''Pune''))
     \<noteq> Inr (Some ''No price trends data available.'')"
  by code_simp

text \<open>
  Claim C9, amended. Let the city be a string and let the extraction client return
  \<open>raw\<close>. If \<open>raw\<close> is not a mapping, or is a mapping whose \<^verbatim>\<open>success\<close> entry is missing
  or false, \<open>get_location_trends\<close> returns the fixed string
  \<^verbatim>\<open>No price trends data available\<close> (without a full stop), and the extraction request is
  its only event: no generation call is made.
\<close>

theorem trends_unsuccessful_extraction:
  assumes "firecrawl_extract d (trend_urls (str_lower d c)) ExtractTrendsPrompt = Inr raw"
    and "(\<forall>kvs. raw \<noteq> PDict kvs)
          \<or> (\<exists>kvs. raw = PDict kvs
                \<and> (map_of kvs ''success'' = None \<or> map_of kvs ''success'' = Some (PBool False)))"
  shows "get_location_trends d (PStr c) =
           (Inr (Some ''No price trends data available''),
            [FirecrawlExtract (trend_urls (str_lower d c)) ExtractTrendsPrompt])"
proof -
  from assms(2) have "\<not> reports_success raw"
    by (cases raw) (auto simp: reports_success_def)
  then show ?thesis
    using assms(1) by (simp add: get_location_trends_str Let_def no_trends_message_def)
qed

theorem trends_unsuccessful_extraction_witness:
  "get_location_trends (world env_ok None (Inr None) (Inr (PList [])) (Inr (Some ''report'')))
       (PStr ''Pune'')
     = (Inr (Some ''No price trends data available''),
        [FirecrawlExtract (trend_urls ''pune'') ExtractTrendsPrompt])"
proof -
  let ?w = "world env_ok None (Inr None) (Inr (PList [])) (Inr (Some ''report''))"
  have l: "str_lower ?w ''Pune'' = ''pune''" by code_simp
  have e: "firecrawl_extract ?w (trend_urls (str_lower ?w ''Pune'')) ExtractTrendsPrompt = Inr (PList [])"
    by (simp add: world_def)
  have s: "(\<forall>kvs. PList [] \<noteq> PDict kvs)
          \<or> (\<exists>kvs. PList [] = PDict kvs
                \<and> (map_of kvs ''success'' = None \<or> map_of kvs ''success'' = Some (PBool False)))"
    by simp
  from trends_unsuccessful_extraction [OF e s] show ?thesis unfolding l .
qed

subsection \<open>Round trip of the Query Interpreter\<close>

text \<open>
  Claim C8. When the content of the generation response is exactly the JSON text
  \<open>pune_json\<close> and the decoder is the JSON decoder, \<open>interpret_user_query\<close> returns the
  mapping with the four fields \<^verbatim>\<open>city = "Pune"\<close>, \<^verbatim>\<open>max_price = 2\<close>,
  \<^verbatim>\<open>property_category = "Residential"\<close> and \<^verbatim>\<open>property_type = "Flat"\<close>, for every query.
\<close>

theorem interpret_query_round_trip:
  assumes "interpreter_run d (InterpretPrompt q) = Inr (Some pune_json)"
    and "json_loads d = json_decode"
  shows "interpret_user_query d q =
           (Inr (PDict [(''city'', PStr ''Pune''), (''max_price'', PInt 2),
                        (''property_category'', PStr ''Residential''),
                        (''property_type'', PStr ''Flat'')]),
            [InterpreterRun (InterpretPrompt q)])"
proof -
  have b: "brace_group pune_json = Some pune_json" by code_simp
  have j: "json_decode pune_json =
      Inr (PDict [(''city'', PStr ''Pune''), (''max_price'', PInt 2),
                  (''property_category'', PStr ''Residential''), (''property_type'', PStr ''Flat'')])"
    by code_simp
  show ?thesis
    by (simp add: interpret_user_query_eq parse_content_def assms b j)
qed

theorem interpret_query_round_trip_witness:
  "interpret_user_query (world env_ok None (Inr (Some pune_json)) (Inr PNone) (Inr None))
       ''3 BHK flats in Pune under 2 crore''
     = (Inr (PDict [(''city'', PStr ''Pune''), (''max_price'', PInt 2),
                    (''property_category'', PStr ''Residential''),
                    (''property_type'', PStr ''Flat'')]),
        [InterpreterRun (InterpretPrompt ''3 BHK flats in Pune under 2 crore'')])"
proof -
  let ?w = "world env_ok None (Inr (Some pune_json)) (Inr PNone) (Inr None)"
  have 1: "interpreter_run ?w (InterpretPrompt ''3 BHK flats in Pune under 2 crore'') = Inr (Some pune_json)"
    by (simp add: world_def)
  have 2: "json_loads ?w = json_decode" by (simp add: world_def)
  from interpret_query_round_trip [OF 1 2] show ?thesis .
qed

subsection \<open>The successful reply and the defaults\<close>

lemma body_after_interpretation:
  assumes "getenv d ''FIRECRAWL_API_KEY'' = Some fk" and "fk \<noteq> []"
    and "getenv d ''OPENAI_API_KEY'' = Some ok" and "ok \<noteq> []"
    and "mid = (case getenv d ''OPENAI_MODEL_ID'' of None \<Rightarrow> ''gpt-3.5-turbo'' | Some x \<Rightarrow> x)"
    and "construct_agent d fk ok mid = None"
    and "m \<noteq> []"
    and "interpret_user_query d m = (Inr (PDict kvs), t1)"
    and "map_of kvs ''city'' = Some cv" and "truthy cv"
    and "find_properties d cv
           (case map_of kvs ''max_price'' of None \<Rightarrow> PFloat (Finite 5) | Some v \<Rightarrow> v)
           (case map_of kvs ''property_category'' of None \<Rightarrow> PStr ''Residential'' | Some v \<Rightarrow> v)
           (case map_of kvs ''property_type'' of None \<Rightarrow> PStr ''Flat'' | Some v \<Rightarrow> v) = (r, t2)"
  shows "generate_response_body d m =
           ((case r of Inl e \<Rightarrow> Inl e
             | Inr x \<Rightarrow> Inr (recommendations_header @ py_str x @ [CHR 0x0A])),
            Construct fk ok mid # t1 @ t2)"
proof -
  have g: "py_get (PDict kvs) ''city'' PNone = Inr cv"
    using assms(9) by (simp add: py_get_def)
  have mp: "(case py_get (PDict kvs) ''max_price'' default_max_price of Inr v \<Rightarrow> v | Inl _ \<Rightarrow> PNone)
      = (case map_of kvs ''max_price'' of None \<Rightarrow> PFloat (Finite 5) | Some v \<Rightarrow> v)"
    by (simp add: py_get_def default_max_price_def split: option.splits)
  have pc: "(case py_get (PDict kvs) ''property_category'' (PStr ''Residential'') of Inr v \<Rightarrow> v | Inl _ \<Rightarrow> PNone)
      = (case map_of kvs ''property_category'' of None \<Rightarrow> PStr ''Residential'' | Some v \<Rightarrow> v)"
    by (simp add: py_get_def split: option.splits)
  have pt: "(case py_get (PDict kvs) ''property_type'' (PStr ''Flat'') of Inr v \<Rightarrow> v | Inl _ \<Rightarrow> PNone)
      = (case map_of kvs ''property_type'' of None \<Rightarrow> PStr ''Flat'' | Some v \<Rightarrow> v)"
    by (simp add: py_get_def split: option.splits)
  show ?thesis
    unfolding body_with_keys [OF assms(1-5)]
    by (simp add: assms(6-8,10,11) g mp pc pt split: sum.splits)
qed

text \<open>
  Claim C7. Let both credentials be present, the agent be constructed and the message be
  non-empty. If the interpretation yields a mapping with a non-empty city, and the listing
  fetch with the interpreted parameters returns the text \<open>text\<close>, then the string
  returned by \<open>generate_response\<close> is the fixed header (a line with
  \<^verbatim>\<open>PROPERTY RECOMMENDATIONS\<close>, then a line of fifty hyphens) followed by \<open>text\<close> as it is
  and a line feed; and \<open>text\<close> is the content of a call of the Summarizer made during
  the fetch.
\<close>

theorem successful_reply_has_header_and_text:
  assumes "getenv d ''FIRECRAWL_API_KEY'' = Some fk" and "fk \<noteq> []"
    and "getenv d ''OPENAI_API_KEY'' = Some ok" and "ok \<noteq> []"
    and "mid = (case getenv d ''OPENAI_MODEL_ID'' of None \<Rightarrow> ''gpt-3.5-turbo'' | Some x \<Rightarrow> x)"
    and "construct_agent d fk ok mid = None"
    and "m \<noteq> []"
    and "interpret_user_query d m = (Inr (PDict kvs), t1)"
    and "map_of kvs ''city'' = Some cv" and "truthy cv"
    and "find_properties d cv
           (case map_of kvs ''max_price'' of None \<Rightarrow> PFloat (Finite 5) | Some v \<Rightarrow> v)
           (case map_of kvs ''property_category'' of None \<Rightarrow> PStr ''Residential'' | Some v \<Rightarrow> v)
           (case map_of kvs ''property_type'' of None \<Rightarrow> PStr ''Flat'' | Some v \<Rightarrow> v)
         = (Inr (Some text), t2)"
  shows "generate_response d m =
           (Inr ([CHR 0x0A] @ header_mark @ '' PROPERTY RECOMMENDATIONS'' @ [CHR 0x0A]
                   @ ''--------------------------------------------------'' @ [CHR 0x0A]
                   @ text @ [CHR 0x0A]),
            Construct fk ok mid # t1 @ t2)
       \<and> (\<exists>p. agent_run d p = Inr (Some text) \<and> AgentRun p \<in> set t2)"
proof
  have "generate_response_body d m =
          (Inr (recommendations_header @ py_str (Some text) @ [CHR 0x0A]),
           Construct fk ok mid # t1 @ t2)"
    using body_after_interpretation [OF assms] by simp
  then show "generate_response d m =
           (Inr ([CHR 0x0A] @ header_mark @ '' PROPERTY RECOMMENDATIONS'' @ [CHR 0x0A]
                   @ ''--------------------------------------------------'' @ [CHR 0x0A]
                   @ text @ [CHR 0x0A]),
            Construct fk ok mid # t1 @ t2)"
    by (simp add: generate_response_def try_except_Inr recommendations_header_def py_str_def)
next
  from find_properties_content [OF assms(11)]
  show "\<exists>p. agent_run d p = Inr (Some text) \<and> AgentRun p \<in> set t2" by blast
qed

theorem successful_reply_has_header_and_text_witness:
  "generate_response
     (world env_ok None (Inr (Some pune_json))
        (Inr (PDict [(''success'', PBool True), (''data'', PDict [(''properties'', three_records)])]))
        (Inr (Some ''SELECTED PROPERTIES: A, B, C'')))
     ''3 BHK flats in Pune under 2 crore''
   = (Inr ([CHR 0x0A] @ header_mark @ '' PROPERTY RECOMMENDATIONS'' @ [CHR 0x0A]
             @ ''--------------------------------------------------'' @ [CHR 0x0A]
             @ ''SELECTED PROPERTIES: A, B, C'' @ [CHR 0x0A]),
      [Construct ''fc-key'' ''sk-key'' ''gpt-3.5-turbo'',
       InterpreterRun (InterpretPrompt ''3 BHK flats in Pune under 2 crore''),
       FirecrawlExtract (property_urls ''pune'')
         (ExtractPropertiesPrompt (PStr ''Residential'') ''Flats'' (PStr ''Pune'') (PInt 2)),
       AgentRun (AnalysisPrompt three_records (PStr ''Residential'') (PStr ''Flat'') (PInt 2))])"
proof -
  let ?raw = "PDict [(''success'', PBool True), (''data'', PDict [(''properties'', three_records)])]"
  let ?w = "world env_ok None (Inr (Some pune_json)) (Inr ?raw) (Inr (Some ''SELECTED PROPERTIES: A, B, C''))"
  let ?m = "''3 BHK flats in Pune under 2 crore''"
  let ?kvs = "[(''city'', PStr ''Pune''), (''max_price'', PInt 2),
               (''property_category'', PStr ''Residential''), (''property_type'', PStr ''Flat'')]"
  let ?t2 = "[FirecrawlExtract (property_urls ''pune'')
                (ExtractPropertiesPrompt (PStr ''Residential'') ''Flats'' (PStr ''Pune'') (PInt 2)),
              AgentRun (AnalysisPrompt three_records (PStr ''Residential'') (PStr ''Flat'') (PInt 2))]"
  have 1: "getenv ?w ''FIRECRAWL_API_KEY'' = Some ''fc-key''"
    and 3: "getenv ?w ''OPENAI_API_KEY'' = Some ''sk-key''"
    and 5: "''gpt-3.5-turbo'' = (case getenv ?w ''OPENAI_MODEL_ID'' of None \<Rightarrow> ''gpt-3.5-turbo'' | Some x \<Rightarrow> x)"
    and 6: "construct_agent ?w ''fc-key'' ''sk-key'' ''gpt-3.5-turbo'' = None"
    by (simp_all add: world_def env_ok_def)
  have 2: "''fc-key'' \<noteq> []" and 4: "''sk-key'' \<noteq> []" and 7: "?m \<noteq> []" by simp_all
  have 8: "interpret_user_query ?w ?m = (Inr (PDict ?kvs), [InterpreterRun (InterpretPrompt ?m)])"
    by code_simp
  have 9: "map_of ?kvs ''city'' = Some (PStr ''Pune'')" by simp
  have 10: "truthy (PStr ''Pune'')" by simp
  have 11: "find_properties ?w (PStr ''Pune'')
           (case map_of ?kvs ''max_price'' of None \<Rightarrow> PFloat (Finite 5) | Some v \<Rightarrow> v)
           (case map_of ?kvs ''property_category'' of None \<Rightarrow> PStr ''Residential'' | Some v \<Rightarrow> v)
           (case map_of ?kvs ''property_type'' of None \<Rightarrow> PStr ''Flat'' | Some v \<Rightarrow> v)
         = (Inr (Some ''SELECTED PROPERTIES: A, B, C''), ?t2)"
    by code_simp
  from successful_reply_has_header_and_text [OF 1 2 3 4 5 6 7 8 9 10 11]
  show ?thesis by simp
qed

text \<open>
  Claim C10. Under the same conditions, the parameters with which \<open>generate_response\<close>
  calls \<open>find_properties\<close> are the entries of the interpreter's mapping, and a default
  (5.0, \<^verbatim>\<open>Residential\<close>, \<^verbatim>\<open>Flat\<close>) is taken only for a key that is absent from the
  mapping. A key that is present is passed on with its value, whatever it is: in
  particular \<^verbatim>\<open>max_price\<close> with the value \<^verbatim>\<open>None\<close> reaches \<open>find_properties\<close> as
  \<^verbatim>\<open>None\<close>, as the run on \<^verbatim>\<open>{"city": "Pune", "max_price": null}\<close> shows.
\<close>

theorem defaults_only_for_absent_keys:
  assumes "getenv d ''FIRECRAWL_API_KEY'' = Some fk" and "fk \<noteq> []"
    and "getenv d ''OPENAI_API_KEY'' = Some ok" and "ok \<noteq> []"
    and "mid = (case getenv d ''OPENAI_MODEL_ID'' of None \<Rightarrow> ''gpt-3.5-turbo'' | Some x \<Rightarrow> x)"
    and "construct_agent d fk ok mid = None"
    and "m \<noteq> []"
    and "interpret_user_query d m = (Inr (PDict kvs), t1)"
    and "map_of kvs ''city'' = Some cv" and "truthy cv"
    and "max_price = (case map_of kvs ''max_price'' of None \<Rightarrow> PFloat (Finite 5) | Some v \<Rightarrow> v)"
    and "property_category =
           (case map_of kvs ''property_category'' of None \<Rightarrow> PStr ''Residential'' | Some v \<Rightarrow> v)"
    and "property_type = (case map_of kvs ''property_type'' of None \<Rightarrow> PStr ''Flat'' | Some v \<Rightarrow> v)"
  shows "generate_response_body d m =
           ((case fst (find_properties d cv max_price property_category property_type) of
               Inl e \<Rightarrow> Inl e
             | Inr x \<Rightarrow> Inr (recommendations_header @ py_str x @ [CHR 0x0A])),
            Construct fk ok mid # t1
              @ snd (find_properties d cv max_price property_category property_type))"
proof -
  obtain r t2 where f: "find_properties d cv max_price property_category property_type = (r, t2)"
    by (cases "find_properties d cv max_price property_category property_type")
  from f have f': "find_properties d cv
           (case map_of kvs ''max_price'' of None \<Rightarrow> PFloat (Finite 5) | Some v \<Rightarrow> v)
           (case map_of kvs ''property_category'' of None \<Rightarrow> PStr ''Residential'' | Some v \<Rightarrow> v)
           (case map_of kvs ''property_type'' of None \<Rightarrow> PStr ''Flat'' | Some v \<Rightarrow> v) = (r, t2)"
    by (simp add: assms(11-13))
  from body_after_interpretation [OF assms(1-10) f'] show ?thesis by (simp add: f)
qed

theorem defaults_only_for_absent_keys_witness:
  "snd (generate_response_body
          (world env_ok None (Inr (Some null_price_json)) (Inr (PDict [(''success'', PBool False)]))
             (Inr (Some ''report'')))
          ''flats in Pune'')
   = [Construct ''fc-key'' ''sk-key'' ''gpt-3.5-turbo'',
      InterpreterRun (InterpretPrompt ''flats in Pune''),
      FirecrawlExtract (property_urls ''pune'')
        (ExtractPropertiesPrompt (PStr ''Residential'') ''Flats'' (PStr ''Pune'') PNone),
      AgentRun (AnalysisPrompt (PList []) (PStr ''Residential'') (PStr ''Flat'') PNone)]"
proof -
  let ?w = "world env_ok None (Inr (Some null_price_json)) (Inr (PDict [(''success'', PBool False)]))
             (Inr (Some ''report''))"
  let ?m = "''flats in Pune''"
  let ?kvs = "[(''city'', PStr ''Pune''), (''max_price'', PNone)]"
  have 1: "getenv ?w ''FIRECRAWL_API_KEY'' = Some ''fc-key''"
    and 3: "getenv ?w ''OPENAI_API_KEY'' = Some ''sk-key''"
    and 5: "''gpt-3.5-turbo'' = (case getenv ?w ''OPENAI_MODEL_ID'' of None \<Rightarrow> ''gpt-3.5-turbo'' | Some x \<Rightarrow> x)"
    and 6: "construct_agent ?w ''fc-key'' ''sk-key'' ''gpt-3.5-turbo'' = None"
    by (simp_all add: world_def env_ok_def)
  have 2: "''fc-key'' \<noteq> []" and 4: "''sk-key'' \<noteq> []" and 7: "?m \<noteq> []" by simp_all
  have 8: "interpret_user_query ?w ?m = (Inr (PDict ?kvs), [InterpreterRun (InterpretPrompt ?m)])"
    by code_simp
  have 9: "map_of ?kvs ''city'' = Some (PStr ''Pune'')" by simp
  have 10: "truthy (PStr ''Pune'')" by simp
  have 11: "PNone = (case map_of ?kvs ''max_price'' of None \<Rightarrow> PFloat (Finite 5) | Some v \<Rightarrow> v)"
    by simp
  have 12: "PStr ''Residential'' =
      (case map_of ?kvs ''property_category'' of None \<Rightarrow> PStr ''Residential'' | Some v \<Rightarrow> v)"
    by simp
  have 13: "PStr ''Flat'' = (case map_of ?kvs ''property_type'' of None \<Rightarrow> PStr ''Flat'' | Some v \<Rightarrow> v)"
    by simp
  have f: "snd (find_properties ?w (PStr ''Pune'') PNone (PStr ''Residential'') (PStr ''Flat''))
      = [FirecrawlExtract (property_urls ''pune'')
           (ExtractPropertiesPrompt (PStr ''Residential'') ''Flats'' (PStr ''Pune'') PNone),
         AgentRun (AnalysisPrompt (PList []) (PStr ''Residential'') (PStr ''Flat'') PNone)]"
    by code_simp
  from defaults_only_for_absent_keys [OF 1 2 3 4 5 6 7 8 9 10 11 12 13]
  have "snd (generate_response_body ?w ?m) =
      Construct ''fc-key'' ''sk-key'' ''gpt-3.5-turbo'' # [InterpreterRun (InterpretPrompt ?m)]
        @ snd (find_properties ?w (PStr ''Pune'') PNone (PStr ''Residential'') (PStr ''Flat''))"
    by simp
  then show ?thesis unfolding f by simp
qed

end
